theory Spec2Isabelle
  imports Main "HOL-Library.Sublist"
begin

section \<open>Session Matcher by Appointment ID: the embedding\<close>

text \<open>
  The program is one Python script, \<^verbatim>\<open>unverify_checker.py\<close>: two uploaded files are read
  into data frames, checked for their required columns, inner-joined on the column
  \<^verbatim>\<open>Appointment ID\<close>, filtered on the column \<^verbatim>\<open>Completed\<close> and offered as an Excel
  download. The script's own functions (\<^verbatim>\<open>read_table\<close>, \<^verbatim>\<open>validate_columns\<close>) and its
  top-level code are translated line by line. The operations the script calls on strings
  and data frames (\<^verbatim>\<open>str.lower\<close>, \<^verbatim>\<open>str.strip\<close>, \<^verbatim>\<open>astype(str)\<close>, \<^verbatim>\<open>pd.merge\<close>,
  boolean-mask selection, \<^verbatim>\<open>DataFrame.empty\<close>) are given by functions that compute what
  the called operation computes, exceptions included. The file readers and the Excel
  writer (\<^verbatim>\<open>pd.read_csv\<close>, \<^verbatim>\<open>pd.read_excel\<close>, \<^verbatim>\<open>to_excel\<close>) are parameters of the
  functions that call them; a reader may return an error and the writer may raise. For the
  Excel writer and reader a description at the level of the sheet is given as well.
\<close>

subsection \<open>Python strings\<close>

text \<open>
  A \<^typ>\<open>char\<close> stands for a code point below 256 (Latin-1); text beyond that range is
  outside the model. \<^verbatim>\<open>str.lower\<close> maps \<^verbatim>\<open>A-Z\<close> and the upper-case letters
  \<^verbatim>\<open>U+00C0..U+00DE\<close> (without the multiplication sign \<^verbatim>\<open>U+00D7\<close>) to the code point 32
  above, and leaves every other code point of the range alone.
\<close>

definition lower_char :: "char \<Rightarrow> char" where
  "lower_char c =
     (let n = (of_char c :: nat)
      in if (65 \<le> n \<and> n \<le> 90) \<or> (192 \<le> n \<and> n \<le> 222 \<and> n \<noteq> 215)
         then char_of (n + 32) else c)"

definition py_lower :: "string \<Rightarrow> string" where
  "py_lower s = map lower_char s"

text \<open>
  The code points below 256 for which \<^verbatim>\<open>str.isspace\<close> holds: tab, line feed, vertical
  tab, form feed, carriage return, the four separators \<^verbatim>\<open>0x1C..0x1F\<close>, space,
  \<^verbatim>\<open>0x85\<close> and the no-break space \<^verbatim>\<open>0xA0\<close>. \<^verbatim>\<open>str.strip()\<close> removes them from both ends.
\<close>

definition is_space :: "char \<Rightarrow> bool" where
  "is_space c =
     (let n = (of_char c :: nat)
      in (9 \<le> n \<and> n \<le> 13) \<or> (28 \<le> n \<and> n \<le> 32) \<or> n = 133 \<or> n = 160)"

definition py_strip :: "string \<Rightarrow> string" where
  "py_strip s = rev (dropWhile is_space (rev (dropWhile is_space s)))"

definition endswith :: "string \<Rightarrow> string \<Rightarrow> bool" where
  "endswith s suf = (length suf \<le> length s \<and> drop (length s - length suf) s = suf)"

fun py_join :: "string \<Rightarrow> string list \<Rightarrow> string" where
  "py_join sep [] = []"
| "py_join sep [x] = x"
| "py_join sep (x # y # ys) = x @ sep @ py_join sep (y # ys)"

text \<open>Decimal rendering of an integer, as \<^verbatim>\<open>str\<close> and an f-string do it.\<close>

definition digit_char :: "nat \<Rightarrow> char" where
  "digit_char d = char_of (of_char CHR ''0'' + d)"

fun str_of_nat :: "nat \<Rightarrow> string" where
  "str_of_nat n =
     (let last_digit = digit_char (n mod 10)
      in if 10 \<le> n then str_of_nat (n div 10) @ [last_digit] else [last_digit])"

declare str_of_nat.simps [simp del]

definition str_of_int :: "int \<Rightarrow> string" where
  "str_of_int i = (if i < 0 then CHR ''-'' # str_of_nat (nat (- i)) else str_of_nat (nat i))"


subsection \<open>Data frames\<close>

text \<open>
  The script runs on whatever pandas is installed, and two of the operations it calls
  differ between the release lines. \<open>Pandas2\<close> stands for pandas 2.0 to 2.3, \<open>Pandas3\<close>
  for pandas 3; the operations that differ take the release line as an argument.
\<close>

datatype pandas = Pandas2 | Pandas3

text \<open>
  A cell holds an integer, a finite floating-point number, a string or the missing value
  \<^verbatim>\<open>NaN\<close>. \<open>CFloat neg m e\<close> is the float whose shortest decimal form is \<open>m\<close> times ten
  to the power \<open>e\<close>, negated when \<open>neg\<close> holds. Booleans, dates and the infinities are
  outside the model. A frame is its column labels, in order, and its rows, in order, each
  row holding one cell per column (\<open>wf_frame\<close>).
\<close>

datatype cell = CInt int | CFloat bool nat int | CStr string | CNaN

record frame =
  columns :: "string list"
  rows :: "cell list list"

definition wf_frame :: "frame \<Rightarrow> bool" where
  "wf_frame df =
     (distinct (columns df) \<and> list_all (\<lambda>r. length r = length (columns df)) (rows df))"

text \<open>\<^verbatim>\<open>DataFrame.empty\<close>: true when either axis has length 0.\<close>

definition df_empty :: "frame \<Rightarrow> bool" where
  "df_empty df = (columns df = [] \<or> rows df = [])"

text \<open>The cell of row \<open>r\<close> under the label \<open>c\<close> (the first column so labelled).\<close>

definition cell_at :: "string list \<Rightarrow> cell list \<Rightarrow> string \<Rightarrow> cell option" where
  "cell_at cols r c = map_of (zip cols r) c"

text \<open>
  \<^verbatim>\<open>repr\<close> of a finite float. The digits are taken without trailing zeros; \<open>decpt\<close> is the
  place of the decimal point counted from the first digit. Fixed notation is used when
  \<open>-4 < decpt \<le> 16\<close>, exponent notation with at least two exponent digits otherwise.
\<close>

fun strip_zeros :: "nat \<Rightarrow> int \<Rightarrow> nat \<times> int" where
  "strip_zeros m e =
     (if m \<noteq> 0 \<and> m mod 10 = 0 then strip_zeros (m div 10) (e + 1) else (m, e))"

declare strip_zeros.simps [simp del]

definition float_repr :: "bool \<Rightarrow> nat \<Rightarrow> int \<Rightarrow> string" where
  "float_repr neg m e =
     (let (d, x) = strip_zeros m e;
          ds = str_of_nat d;
          n = int (length ds);
          decpt = (if d = 0 then 1 else n + x);
          ex = str_of_nat (nat \<bar>decpt - 1\<bar>);
          body =
            (if - 4 < decpt \<and> decpt \<le> 16 then
               (if decpt \<le> 0 then ''0.'' @ replicate (nat (- decpt)) CHR ''0'' @ ds
                else if n \<le> decpt then ds @ replicate (nat (decpt - n)) CHR ''0'' @ ''.0''
                else take (nat decpt) ds @ ''.'' @ drop (nat decpt) ds)
             else take 1 ds @ (if 1 < n then ''.'' @ drop 1 ds else []) @ ''e'' @
                  (if decpt - 1 < 0 then ''-'' else ''+'') @
                  (if length ex < 2 then CHR ''0'' # ex else ex))
      in (if neg then ''-'' else []) @ body)"

text \<open>\<^verbatim>\<open>str(v)\<close> of a cell.\<close>

fun py_str :: "cell \<Rightarrow> string" where
  "py_str (CInt i) = str_of_int i"
| "py_str (CFloat neg m e) = float_repr neg m e"
| "py_str (CStr s) = s"
| "py_str CNaN = ''nan''"

text \<open>
  What \<^verbatim>\<open>astype(str)\<close> makes of one element: its \<^verbatim>\<open>str\<close>. From pandas 3 on a missing
  value stays missing; before, it becomes the text \<^verbatim>\<open>nan\<close>.
\<close>

fun astype_str :: "pandas \<Rightarrow> cell \<Rightarrow> cell" where
  "astype_str Pandas3 CNaN = CNaN"
| "astype_str v c = CStr (py_str c)"

text \<open>\<^verbatim>\<open>df[c] = df[c].astype(str)\<close>: the column keeps its place, its cells are converted.\<close>

definition astype_str_row :: "pandas \<Rightarrow> string \<Rightarrow> string list \<Rightarrow> cell list \<Rightarrow> cell list" where
  "astype_str_row v c cols r = map (\<lambda>(l, x). if l = c then astype_str v x else x) (zip cols r)"

definition astype_str_column :: "pandas \<Rightarrow> string \<Rightarrow> frame \<Rightarrow> frame" where
  "astype_str_column v c df = df\<lparr>rows := map (astype_str_row v c (columns df)) (rows df)\<rparr>"

subsection \<open>\<^verbatim>\<open>read_table\<close> (lines 25-45)\<close>

record 'b uploaded_file =
  name :: string
  content :: 'b

type_synonym 'b reader = "'b uploaded_file \<Rightarrow> string + frame"

text \<open>
  A reader returns \<open>Inr df\<close>, or \<open>Inl e\<close> with the text of the exception it raised.
  The function returns the pair the source returns: the frame or \<^verbatim>\<open>None\<close>, and the
  message or \<^verbatim>\<open>None\<close>. The three messages are the spec's \<^verbatim>\<open>UnsupportedFormat\<close>,
  \<^verbatim>\<open>ParseError\<close> and \<^verbatim>\<open>EmptyTable\<close>.
\<close>

definition msg_no_file :: string where
  "msg_no_file = ''No file uploaded''"

definition msg_unsupported :: string where
  "msg_unsupported = ''Unsupported file type. Please upload CSV or Excel.''"

definition msg_parse_error :: "string \<Rightarrow> string" where
  "msg_parse_error e = ''Error reading file: '' @ e"

definition msg_empty :: string where
  "msg_empty = ''File appears to be empty.''"

definition read_table ::
  "'b reader \<Rightarrow> 'b reader \<Rightarrow> 'b uploaded_file option \<Rightarrow> frame option \<times> string option" where
  "read_table read_csv read_excel file =
     (case file of
        None \<Rightarrow> (None, Some msg_no_file)
      | Some f \<Rightarrow>
          (let filename = py_lower (name f);
               parsed =
                 (if endswith filename ''.csv'' then
                    (case read_csv f of Inl e \<Rightarrow> Inl (msg_parse_error e) | Inr df \<Rightarrow> Inr df)
                  else if endswith filename ''.xlsx'' \<or> endswith filename ''.xls'' then
                    (case read_excel f of Inl e \<Rightarrow> Inl (msg_parse_error e) | Inr df \<Rightarrow> Inr df)
                  else Inl msg_unsupported)
           in case parsed of
                Inl m \<Rightarrow> (None, Some m)
              | Inr df \<Rightarrow> if df_empty df then (None, Some msg_empty) else (Some df, None)))"

subsection \<open>\<^verbatim>\<open>validate_columns\<close> (lines 48-52)\<close>

definition missing_columns :: "frame \<Rightarrow> string list \<Rightarrow> string list" where
  "missing_columns df required_cols = filter (\<lambda>c. c \<notin> set (columns df)) required_cols"

definition validate_columns :: "frame \<Rightarrow> string list \<Rightarrow> string \<Rightarrow> string option" where
  "validate_columns df required_cols file_label =
     (let missing = missing_columns df required_cols
      in if missing \<noteq> []
         then Some (file_label @ '' is missing required column(s): '' @ py_join '', '' missing)
         else None)"

subsection \<open>The join (lines 87-99)\<close>

definition key_column :: string where
  "key_column = ''Appointment ID''"

definition status_column :: string where
  "status_column = ''Completed''"

text \<open>
  \<^verbatim>\<open>pd.merge(left, right, on=key, how="inner", suffixes=(ls, rs))\<close>. The result has one
  row for every pair of a left row and a right row whose cells under \<open>key\<close> are equal
  (two missing keys count as equal): the left row's cells followed by the right row's
  cells without the right key cell. Its labels are the left labels followed by the right
  labels without \<open>key\<close>, where a label other than \<open>key\<close> that occurs on both sides gets
  \<open>ls\<close> appended on the left and \<open>rs\<close> on the right. Rows are listed left row by left
  row; the order pandas gives the pairs depends on its version, and no statement below
  depends on it.
\<close>

definition overlapping :: "string \<Rightarrow> string list \<Rightarrow> string list \<Rightarrow> string \<Rightarrow> bool" where
  "overlapping key lcols rcols c = (c \<noteq> key \<and> c \<in> set lcols \<and> c \<in> set rcols)"

definition left_labels :: "string \<Rightarrow> string \<times> string \<Rightarrow> string list \<Rightarrow> string list \<Rightarrow> string list" where
  "left_labels key sfx lcols rcols =
     map (\<lambda>c. if overlapping key lcols rcols c then c @ fst sfx else c) lcols"

definition right_labels :: "string \<Rightarrow> string \<times> string \<Rightarrow> string list \<Rightarrow> string list \<Rightarrow> string list" where
  "right_labels key sfx lcols rcols =
     map (\<lambda>c. if overlapping key lcols rcols c then c @ snd sfx else c)
         (filter (\<lambda>c. c \<noteq> key) rcols)"

definition merged_columns ::
  "string \<Rightarrow> string \<times> string \<Rightarrow> string list \<Rightarrow> string list \<Rightarrow> string list" where
  "merged_columns key sfx lcols rcols =
     left_labels key sfx lcols rcols @ right_labels key sfx lcols rcols"

text \<open>
  The merge raises \<^verbatim>\<open>MergeError\<close> instead of returning a frame when appending a suffix
  repeats a label. On every release line modelled, a label counts when it repeats an
  earlier label of its own side and the label it was made from did not
  (\<open>suffix_repeats\<close>). From pandas 3 on, a suffixed label also counts when the other side
  has it as the label of a column that was not renamed (\<open>suffix_meets_other_side\<close>).
\<close>

fun suffix_repeats :: "string list \<Rightarrow> string list \<Rightarrow> string list \<Rightarrow> string list \<Rightarrow> string list" where
  "suffix_repeats seen_old seen_new (old # olds) (new # news) =
     (if new \<in> set seen_new \<and> old \<notin> set seen_old then [new] else []) @
     suffix_repeats (old # seen_old) (new # seen_new) olds news"
| "suffix_repeats seen_old seen_new olds news = []"

definition suffix_meets_other_side ::
  "string \<Rightarrow> string \<times> string \<Rightarrow> string list \<Rightarrow> string list \<Rightarrow> string list" where
  "suffix_meets_other_side key sfx lcols rcols =
     filter (\<lambda>l. l \<in> set (filter (\<lambda>c. c \<noteq> key \<and> \<not> overlapping key lcols rcols c) rcols))
            (left_labels key sfx lcols rcols) @
     filter (\<lambda>l. l \<in> set (filter (\<lambda>c. \<not> overlapping key lcols rcols c) lcols))
            (right_labels key sfx lcols rcols)"

definition duplicate_labels ::
  "pandas \<Rightarrow> string \<Rightarrow> string \<times> string \<Rightarrow> string list \<Rightarrow> string list \<Rightarrow> string list" where
  "duplicate_labels v key sfx lcols rcols =
     suffix_repeats [] [] lcols (left_labels key sfx lcols rcols) @
     suffix_repeats [] [] (filter (\<lambda>c. c \<noteq> key) rcols) (right_labels key sfx lcols rcols) @
     (if v = Pandas3 then suffix_meets_other_side key sfx lcols rcols else [])"

text \<open>The exceptions the script does not catch.\<close>

datatype exn = MergeError "string list" | IllegalCharacterError | SheetTooLarge

definition without_key :: "string \<Rightarrow> string list \<Rightarrow> cell list \<Rightarrow> cell list" where
  "without_key key cols r = map snd (filter (\<lambda>(c, v). c \<noteq> key) (zip cols r))"

definition matching_rows :: "string \<Rightarrow> frame \<Rightarrow> cell option \<Rightarrow> cell list list" where
  "matching_rows key df k = filter (\<lambda>b. cell_at (columns df) b key = k) (rows df)"

definition merged_rows :: "frame \<Rightarrow> frame \<Rightarrow> string \<Rightarrow> cell list list" where
  "merged_rows left right key =
     concat (map (\<lambda>a. map (\<lambda>b. a @ without_key key (columns right) b)
                          (matching_rows key right (cell_at (columns left) a key)))
                 (rows left))"

definition merge_inner ::
  "pandas \<Rightarrow> frame \<Rightarrow> frame \<Rightarrow> string \<Rightarrow> string \<times> string \<Rightarrow> exn + frame" where
  "merge_inner v left right key sfx =
     (let dups = duplicate_labels v key sfx (columns left) (columns right)
      in if dups \<noteq> [] then Inl (MergeError dups)
         else Inr \<lparr>columns = merged_columns key sfx (columns left) (columns right),
                  rows = merged_rows left right key\<rparr>)"

text \<open>Lines 88-99: both key columns are converted to strings, then the frames are merged.\<close>

definition join_tables :: "pandas \<Rightarrow> frame \<Rightarrow> frame \<Rightarrow> exn + frame" where
  "join_tables v df1 df2 =
     merge_inner v (astype_str_column v key_column df1) (astype_str_column v key_column df2)
       key_column (''_aloha'', ''_unbilled'')"

text \<open>The labels line 93 gives the joined table when the merge does not raise.\<close>

definition joined_columns :: "frame \<Rightarrow> frame \<Rightarrow> string list" where
  "joined_columns df1 df2 =
     merged_columns key_column (''_aloha'', ''_unbilled'') (columns df1) (columns df2)"

text \<open>The key values of a frame as the join sees them, one per row.\<close>

definition join_keys :: "pandas \<Rightarrow> frame \<Rightarrow> cell option list" where
  "join_keys v df =
     map (\<lambda>r. cell_at (columns df) r key_column) (rows (astype_str_column v key_column df))"

subsection \<open>The status filter (lines 101-111)\<close>

definition completed_yes :: "cell \<Rightarrow> bool" where
  "completed_yes v = (py_lower (py_strip (py_str v)) = ''yes'')"

definition keeps_row :: "string list \<Rightarrow> cell list \<Rightarrow> bool" where
  "keeps_row cols r =
     (case cell_at cols r status_column of Some v \<Rightarrow> completed_yes v | None \<Rightarrow> False)"

definition select_completed_yes :: "frame \<Rightarrow> frame" where
  "select_completed_yes merged = merged\<lparr>rows := filter (keeps_row (columns merged)) (rows merged)\<rparr>"

definition msg_no_status :: string where
  "msg_no_status =
     ''Merged result does not contain '' @ [CHR 0x27] @ ''Completed'' @ [CHR 0x27] @
     '' column from Aloha file.''"

definition filter_completed :: "frame \<Rightarrow> string + frame" where
  "filter_completed merged =
     (if status_column \<notin> set (columns merged) then Inl msg_no_status
      else Inr (select_completed_yes merged))"

subsection \<open>The page (lines 63-139)\<close>













subsection \<open>The Excel writer and reader\<close>

text \<open>
  The script hands the filtered frame to \<^verbatim>\<open>to_excel\<close> (openpyxl engine), and
  \<^verbatim>\<open>read_table\<close> hands an uploaded workbook to \<^verbatim>\<open>pd.read_excel\<close>. Both are described here
  at the level of the sheet they write and read: a grid of cells, each a number, a text or
  empty (\<open>CNaN\<close>), the first row being the header. The bytes of the file are not
  modelled.
\<close>

record workbook =
  sheet_title :: string
  grid :: "cell list list"








text \<open>
  Reading a sheet. A number without a fractional part is read as an integer, an empty
  text as an empty cell. Every row loses its trailing empty cells, the sheet loses its
  trailing empty rows, and the rows are then filled up with empty cells to the width of the
  widest.
\<close>

fun xl_read_cell :: "cell \<Rightarrow> cell" where
  "xl_read_cell (CFloat neg m e) =
     (let (d, x) = strip_zeros m e
      in if d = 0 then CInt 0
         else if 0 \<le> x then CInt ((if neg then - 1 else 1) * int d * 10 ^ nat x)
         else CFloat neg d x)"
| "xl_read_cell (CStr s) = (if s = [] then CNaN else CStr s)"
| "xl_read_cell c = c"

definition trim_row :: "cell list \<Rightarrow> cell list" where
  "trim_row r = rev (dropWhile (\<lambda>c. c = CNaN) (rev r))"

definition sheet_data :: "cell list list \<Rightarrow> cell list list" where
  "sheet_data g =
     (let trimmed = map (\<lambda>r. trim_row (map xl_read_cell r)) g;
          kept = rev (dropWhile (\<lambda>r. r = []) (rev trimmed));
          width = foldr (\<lambda>r w. max (length r) w) kept 0
      in map (\<lambda>r. r @ replicate (width - length r) CNaN) kept)"

text \<open>
  The header row gives the labels: a text is its own label, an empty header cell is
  \<^verbatim>\<open>Unnamed: i\<close>, and a label that occurred \<open>k\<close> times before gets \<^verbatim>\<open>.k\<close> appended.
\<close>

fun header_label :: "nat \<Rightarrow> cell \<Rightarrow> string" where
  "header_label i (CStr s) = s"
| "header_label i CNaN = ''Unnamed: '' @ str_of_nat i"
| "header_label i c = py_str c"

fun mangle_dupes :: "string list \<Rightarrow> string list \<Rightarrow> string list" where
  "mangle_dupes seen [] = []"
| "mangle_dupes seen (l # ls) =
     (if l \<in> set seen then l @ ''.'' @ str_of_nat (count_list seen l) else l) #
     mangle_dupes (l # seen) ls"

text \<open>
  The parser reads a text as a number when, after surrounding blanks are removed, it is an
  optional sign, digits with an optional decimal point, and an optional exponent; without
  point and exponent the number is an integer.
\<close>

definition is_digit :: "char \<Rightarrow> bool" where
  "is_digit c = (let n = (of_char c :: nat) in 48 \<le> n \<and> n \<le> 57)"

definition is_blank :: "char \<Rightarrow> bool" where
  "is_blank c = (let n = (of_char c :: nat) in (9 \<le> n \<and> n \<le> 13) \<or> n = 32)"

definition nat_of_digits :: "string \<Rightarrow> nat" where
  "nat_of_digits ds = foldl (\<lambda>a c. 10 * a + (of_char c - 48)) 0 ds"

definition split_sign :: "string \<Rightarrow> bool \<times> string" where
  "split_sign s =
     (if take 1 s = ''-'' then (True, drop 1 s)
      else if take 1 s = ''+'' then (False, drop 1 s) else (False, s))"

definition numeric_text :: "string \<Rightarrow> cell option" where
  "numeric_text s =
     (let t = rev (dropWhile is_blank (rev (dropWhile is_blank s)));
          (neg, t1) = split_sign t;
          whole = takeWhile is_digit t1;
          t2 = dropWhile is_digit t1;
          has_point = (take 1 t2 = ''.'');
          frac = (if has_point then takeWhile is_digit (drop 1 t2) else []);
          t3 = (if has_point then dropWhile is_digit (drop 1 t2) else t2);
          has_exp = (take 1 t3 = ''e'' \<or> take 1 t3 = ''E'');
          (eneg, t4) = split_sign (drop 1 t3);
          edigits = (if has_exp then takeWhile is_digit t4 else []);
          t5 = (if has_exp then dropWhile is_digit t4 else t3);
          ex = (if eneg then - int (nat_of_digits edigits) else int (nat_of_digits edigits))
      in if (whole = [] \<and> frac = []) \<or> (has_exp \<and> edigits = []) \<or> t5 \<noteq> [] then None
         else if \<not> has_point \<and> \<not> has_exp
         then Some (CInt ((if neg then - 1 else 1) * int (nat_of_digits whole)))
         else Some (case strip_zeros (nat_of_digits (whole @ frac)) (ex - int (length frac)) of
                      (d, x) \<Rightarrow> CFloat neg d x))"

text \<open>The texts the parser takes for a missing value (the default \<^verbatim>\<open>na_values\<close>).\<close>

definition na_texts :: "string list" where
  "na_texts =
     ['''', ''#N/A'', ''#N/A N/A'', ''#NA'', ''-1.#IND'', ''-1.#QNAN'', ''-NaN'', ''-nan'',
      ''1.#IND'', ''1.#QNAN'', ''<NA>'', ''N/A'', ''NA'', ''NULL'', ''NaN'', ''None'', ''n/a'',
      ''nan'', ''null'']"

text \<open>
  Type inference works column by column. When every cell of a column is a number, is
  missing or is a text read as a number, the column becomes numeric: integers when all are
  integers and none is missing, floats otherwise. Else the column keeps its cells, the
  missing-value texts apart.
\<close>

datatype reading = RInt int | RFloat bool nat int | RNull | RText string

fun reading_of :: "cell \<Rightarrow> reading" where
  "reading_of (CInt i) = RInt i"
| "reading_of (CFloat neg m e) = RFloat neg m e"
| "reading_of CNaN = RNull"
| "reading_of (CStr s) =
     (if s \<in> set na_texts then RNull
      else case numeric_text s of
             Some (CInt i) \<Rightarrow> RInt i
           | Some (CFloat neg m e) \<Rightarrow> RFloat neg m e
           | _ \<Rightarrow> RText s)"

datatype column_kind = KInt | KFloat | KObject

fun is_rtext :: "reading \<Rightarrow> bool" where
  "is_rtext (RText s) = True"
| "is_rtext r = False"

fun is_rint :: "reading \<Rightarrow> bool" where
  "is_rint (RInt i) = True"
| "is_rint r = False"

definition kind_of_column :: "cell list \<Rightarrow> column_kind" where
  "kind_of_column col =
     (if list_ex (\<lambda>c. is_rtext (reading_of c)) col then KObject
      else if list_all (\<lambda>c. is_rint (reading_of c)) col then KInt else KFloat)"

definition float_of_int :: "int \<Rightarrow> cell" where
  "float_of_int i = (case strip_zeros (nat \<bar>i\<bar>) 0 of (d, x) \<Rightarrow> CFloat (i < 0) d x)"

fun convert_cell :: "column_kind \<Rightarrow> cell \<Rightarrow> cell" where
  "convert_cell KObject c = (case reading_of c of RNull \<Rightarrow> CNaN | _ \<Rightarrow> c)"
| "convert_cell KInt c = (case reading_of c of RInt i \<Rightarrow> CInt i | _ \<Rightarrow> c)"
| "convert_cell KFloat c =
     (case reading_of c of
        RInt i \<Rightarrow> float_of_int i
      | RFloat neg m e \<Rightarrow> CFloat neg m e
      | RNull \<Rightarrow> CNaN
      | RText s \<Rightarrow> c)"

definition column_cells :: "nat \<Rightarrow> cell list list \<Rightarrow> cell list" where
  "column_cells j body = concat (map (\<lambda>r. take 1 (drop j r)) body)"

definition infer_columns :: "nat \<Rightarrow> cell list list \<Rightarrow> cell list list" where
  "infer_columns width body =
     (let kinds = map (\<lambda>j. kind_of_column (column_cells j body)) [0..<width]
      in map (\<lambda>r. map (\<lambda>(k, c). convert_cell k c) (zip kinds r)) body)"

text \<open>
  \<^verbatim>\<open>pd.read_excel(file)\<close> on an uploaded workbook: the first sheet, its first row as
  header. A sheet without data gives the empty frame.
\<close>

definition pd_read_excel :: "workbook uploaded_file \<Rightarrow> string + frame" where
  "pd_read_excel f =
     (case sheet_data (grid (content f)) of
        [] \<Rightarrow> Inr \<lparr>columns = [], rows = []\<rparr>
      | h # body \<Rightarrow>
          Inr \<lparr>columns = mangle_dupes [] (map (\<lambda>(i, c). header_label i c) (zip [0..<length h] h)),
               rows = infer_columns (length h) body\<rparr>)"

subsection \<open>Example inputs\<close>

text \<open>
  The scenario of the spec's section 8, with the keys of the first file read as numbers
  and those of the second as text.
\<close>

definition scenario_aloha :: frame where
  "scenario_aloha =
     \<lparr>columns = [''Appointment ID'', ''Completed'', ''Name''],
      rows = [[CInt 1, CStr ''Yes'', CStr ''X''], [CInt 2, CStr ''No'', CStr ''Y'']]\<rparr>"

definition scenario_unbilled :: frame where
  "scenario_unbilled =
     \<lparr>columns = [''Appointment ID'', ''Amount''],
      rows = [[CStr ''1'', CInt 50], [CStr ''3'', CInt 75]]\<rparr>"

text \<open>An unbilled file none of whose keys occurs in \<open>scenario_aloha\<close>.\<close>

definition scenario_disjoint :: frame where
  "scenario_disjoint =
     \<lparr>columns = [''Appointment ID'', ''Amount''],
      rows = [[CInt 7, CInt 50], [CInt 8, CInt 75]]\<rparr>"



text \<open>
  Files that share the column \<^verbatim>\<open>Note\<close>: \<open>overlap_aloha\<close>, \<open>clash_aloha\<close> and
  \<open>repeat_aloha\<close> as first file, \<open>clash_unbilled\<close> and \<open>other_unbilled\<close> as second.
  \<open>clash_aloha\<close> also has a column \<^verbatim>\<open>Note_unbilled\<close> of its own, \<open>repeat_aloha\<close> a column
  \<^verbatim>\<open>Note_aloha\<close>. \<open>other_unbilled\<close> shares no key with the first files.
\<close>

definition overlap_aloha :: frame where
  "overlap_aloha =
     \<lparr>columns = [''Appointment ID'', ''Completed'', ''Note''],
      rows = [[CInt 1, CStr ''Yes'', CStr ''from A'']]\<rparr>"

definition clash_aloha :: frame where
  "clash_aloha =
     \<lparr>columns = [''Appointment ID'', ''Completed'', ''Note'', ''Note_unbilled''],
      rows = [[CInt 1, CStr ''Yes'', CStr ''from A'', CStr ''own column of A'']]\<rparr>"

definition repeat_aloha :: frame where
  "repeat_aloha =
     \<lparr>columns = [''Appointment ID'', ''Completed'', ''Note'', ''Note_aloha''],
      rows = [[CInt 1, CStr ''Yes'', CStr ''from A'', CStr ''own column of A'']]\<rparr>"

definition clash_unbilled :: frame where
  "clash_unbilled =
     \<lparr>columns = [''Appointment ID'', ''Note''],
      rows = [[CInt 1, CStr ''from B'']]\<rparr>"

definition other_unbilled :: frame where
  "other_unbilled =
     \<lparr>columns = [''Appointment ID'', ''Note''],
      rows = [[CInt 2, CStr ''from B'']]\<rparr>"



section \<open>Properties\<close>

subsection \<open>Schema validator\<close>

lemma set_missing_columns:
  "set (missing_columns df req) = {c \<in> set req. c \<notin> set (columns df)}"
  by (auto simp: missing_columns_def)

lemma missing_columns_empty_iff:
  "missing_columns df req = [] \<longleftrightarrow> set req \<subseteq> set (columns df)"
  by (auto simp: missing_columns_def filter_empty_conv)

lemma count_list_filter:
  "count_list (filter P xs) c = (if P c then count_list xs c else 0)"
  by (induction xs) auto

text \<open>
  Claim C4. The validator reports exactly the required names that are absent from the
  frame's columns: every one of them, as often and in the order as they were given. The
  message it returns carries that list, and it returns \<^verbatim>\<open>None\<close> exactly when no required
  name is absent.
\<close>

theorem validate_columns_reports_all_missing:
  "set (missing_columns df req) = {c \<in> set req. c \<notin> set (columns df)}
   \<and> subseq (missing_columns df req) req
   \<and> (\<forall>c. count_list (missing_columns df req) c =
            (if c \<in> set (columns df) then 0 else count_list req c))
   \<and> validate_columns df req label =
        (if missing_columns df req = [] then None
         else Some (label @ '' is missing required column(s): '' @
                    py_join '', '' (missing_columns df req)))
   \<and> (validate_columns df req label = None \<longleftrightarrow> set req \<subseteq> set (columns df))"
proof -
  have "\<forall>c. count_list (missing_columns df req) c =
            (if c \<in> set (columns df) then 0 else count_list req c)"
    by (simp add: missing_columns_def count_list_filter)
  moreover have "subseq (missing_columns df req) req"
    by (simp add: missing_columns_def)
  moreover have "validate_columns df req label = None \<longleftrightarrow> set req \<subseteq> set (columns df)"
    by (simp add: validate_columns_def Let_def missing_columns_empty_iff)
  ultimately show ?thesis
    by (simp add: set_missing_columns validate_columns_def Let_def)
qed

theorem validate_columns_reports_all_missing_witness:
  "validate_columns \<lparr>columns = [''Appointment ID'', ''Name''], rows = []\<rparr>
     [''Appointment ID'', ''Completed'', ''Status''] ''File 1 (Aloha)'' =
   Some ''File 1 (Aloha) is missing required column(s): Completed, Status''"
  using validate_columns_reports_all_missing
    [of "\<lparr>columns = [''Appointment ID'', ''Name''], rows = []\<rparr>"
        "[''Appointment ID'', ''Completed'', ''Status'']" "''File 1 (Aloha)''"]
  by (simp add: missing_columns_def)

subsection \<open>Table loader\<close>

lemma endswith_iff: "endswith s suf \<longleftrightarrow> (\<exists>p. s = p @ suf)"
  unfolding endswith_def
  by (metis append_eq_conv_conj append_take_drop_id diff_add_inverse2 length_append
      length_drop le_add2)

text \<open>
  Claim C5. When the reader chosen by the file's extension returns a frame, and the frame
  has no rows, \<^verbatim>\<open>read_table\<close> returns no frame and the message
  \<^verbatim>\<open>File appears to be empty.\<close> (the spec's \<^verbatim>\<open>EmptyTable\<close>).
\<close>

theorem read_table_empty_table:
  assumes "(endswith (py_lower (name f)) ''.csv'' \<and> read_csv f = Inr df) \<or>
           (\<not> endswith (py_lower (name f)) ''.csv'' \<and>
            (endswith (py_lower (name f)) ''.xlsx'' \<or> endswith (py_lower (name f)) ''.xls'') \<and>
            read_excel f = Inr df)"
    and "rows df = []"
  shows "read_table read_csv read_excel (Some f) = (None, Some msg_empty)"
  using assms by (auto simp: read_table_def df_empty_def Let_def)

theorem read_table_empty_table_witness:
  "read_table (\<lambda>f. Inr \<lparr>columns = [''Appointment ID'', ''Completed''], rows = []\<rparr>)
       (\<lambda>f. Inl ''not a workbook'') (Some \<lparr>name = ''Empty.CSV'', content = ()\<rparr>) =
   (None, Some ''File appears to be empty.'')"
  using read_table_empty_table
    [of "\<lparr>name = ''Empty.CSV'', content = ()\<rparr>"
        "\<lambda>f. Inr \<lparr>columns = [''Appointment ID'', ''Completed''], rows = []\<rparr>"
        "\<lparr>columns = [''Appointment ID'', ''Completed''], rows = []\<rparr>"
        "\<lambda>f. Inl ''not a workbook''"]
  by (simp add: msg_empty_def) code_simp

lemma msg_unsupported_distinct:
  "msg_parse_error e \<noteq> msg_unsupported" "msg_empty \<noteq> msg_unsupported"
  by (simp_all add: msg_parse_error_def msg_unsupported_def msg_empty_def)

text \<open>
  Claim C10. The extension is looked for in the lower-cased file name. The result is the
  message \<^verbatim>\<open>Unsupported file type...\<close> (the spec's \<^verbatim>\<open>UnsupportedFormat\<close>) exactly when the
  lower-cased name ends in none of \<^verbatim>\<open>.csv\<close>, \<^verbatim>\<open>.xlsx\<close>, \<^verbatim>\<open>.xls\<close>; a name whose lower-cased
  form ends in \<^verbatim>\<open>.csv\<close> goes to the CSV reader, one that ends in \<^verbatim>\<open>.xlsx\<close> or \<^verbatim>\<open>.xls\<close> to the
  Excel reader. \<^verbatim>\<open>DATA.CSV\<close> and \<^verbatim>\<open>DATA.XLSX\<close> are such names.
\<close>

theorem read_table_extension_dispatch:
  "(read_table read_csv read_excel (Some f) = (None, Some msg_unsupported) \<longleftrightarrow>
      \<not> (endswith (py_lower (name f)) ''.csv'' \<or> endswith (py_lower (name f)) ''.xlsx'' \<or>
         endswith (py_lower (name f)) ''.xls''))
   \<and> (endswith (py_lower (name f)) ''.csv'' \<longrightarrow>
        read_table read_csv read_excel (Some f) =
          (case read_csv f of
             Inl e \<Rightarrow> (None, Some (msg_parse_error e))
           | Inr df \<Rightarrow> if df_empty df then (None, Some msg_empty) else (Some df, None)))
   \<and> (\<not> endswith (py_lower (name f)) ''.csv'' \<and>
      (endswith (py_lower (name f)) ''.xlsx'' \<or> endswith (py_lower (name f)) ''.xls'') \<longrightarrow>
        read_table read_csv read_excel (Some f) =
          (case read_excel f of
             Inl e \<Rightarrow> (None, Some (msg_parse_error e))
           | Inr df \<Rightarrow> if df_empty df then (None, Some msg_empty) else (Some df, None)))
   \<and> py_lower ''DATA.CSV'' = ''data.csv'' \<and> endswith ''data.csv'' ''.csv''
   \<and> py_lower ''DATA.XLSX'' = ''data.xlsx'' \<and> \<not> endswith ''data.xlsx'' ''.csv''
   \<and> endswith ''data.xlsx'' ''.xlsx''"
proof -
  have ex: "py_lower ''DATA.CSV'' = ''data.csv''" "endswith ''data.csv'' ''.csv''"
    "py_lower ''DATA.XLSX'' = ''data.xlsx''" "\<not> endswith ''data.xlsx'' ''.csv''"
    "endswith ''data.xlsx'' ''.xlsx''"
    by code_simp+
  have disp: "read_table read_csv read_excel (Some f) = (None, Some msg_unsupported) \<longleftrightarrow>
      \<not> (endswith (py_lower (name f)) ''.csv'' \<or> endswith (py_lower (name f)) ''.xlsx'' \<or>
         endswith (py_lower (name f)) ''.xls'')"
    using msg_unsupported_distinct
    by (auto simp: read_table_def Let_def split: sum.splits)
  have csv: "endswith (py_lower (name f)) ''.csv'' \<longrightarrow>
        read_table read_csv read_excel (Some f) =
          (case read_csv f of
             Inl e \<Rightarrow> (None, Some (msg_parse_error e))
           | Inr df \<Rightarrow> if df_empty df then (None, Some msg_empty) else (Some df, None))"
    by (simp add: read_table_def Let_def split: sum.splits)
  have xl: "\<not> endswith (py_lower (name f)) ''.csv'' \<and>
      (endswith (py_lower (name f)) ''.xlsx'' \<or> endswith (py_lower (name f)) ''.xls'') \<longrightarrow>
        read_table read_csv read_excel (Some f) =
          (case read_excel f of
             Inl e \<Rightarrow> (None, Some (msg_parse_error e))
           | Inr df \<Rightarrow> if df_empty df then (None, Some msg_empty) else (Some df, None))"
    by (auto simp add: read_table_def Let_def split: sum.splits)
  from ex disp csv xl show ?thesis by blast
qed

theorem read_table_extension_dispatch_witness:
  "read_table (\<lambda>f. Inr \<lparr>columns = [''a''], rows = [[CInt 1]]\<rparr>) (\<lambda>f. Inl ''boom'')
       (Some \<lparr>name = ''DATA.CSV'', content = ()\<rparr>) =
     (Some \<lparr>columns = [''a''], rows = [[CInt 1]]\<rparr>, None)
   \<and> read_table (\<lambda>f. Inr \<lparr>columns = [''a''], rows = [[CInt 1]]\<rparr>) (\<lambda>f. Inl ''boom'')
       (Some \<lparr>name = ''DATA.XLSX'', content = ()\<rparr>) =
     (None, Some ''Error reading file: boom'')
   \<and> read_table (\<lambda>f. Inr \<lparr>columns = [''a''], rows = [[CInt 1]]\<rparr>) (\<lambda>f. Inl ''boom'')
       (Some \<lparr>name = ''DATA.TXT'', content = ()\<rparr>) =
     (None, Some ''Unsupported file type. Please upload CSV or Excel.'')"
proof -
  let ?rc = "\<lambda>f :: unit uploaded_file. (Inr \<lparr>columns = [''a''], rows = [[CInt 1]]\<rparr> :: string + frame)"
  let ?re = "\<lambda>f :: unit uploaded_file. (Inl ''boom'' :: string + frame)"
  have l: "py_lower ''DATA.TXT'' = ''data.txt''" "\<not> endswith ''data.txt'' ''.csv''"
    "\<not> endswith ''data.txt'' ''.xlsx''" "\<not> endswith ''data.txt'' ''.xls''"
    "\<not> endswith ''data.xlsx'' ''.csv''"
    by code_simp+
  show ?thesis
    using read_table_extension_dispatch [of ?rc ?re "\<lparr>name = ''DATA.CSV'', content = ()\<rparr>"]
      read_table_extension_dispatch [of ?rc ?re "\<lparr>name = ''DATA.XLSX'', content = ()\<rparr>"]
      read_table_extension_dispatch [of ?rc ?re "\<lparr>name = ''DATA.TXT'', content = ()\<rparr>"] l
    by (simp add: df_empty_def msg_parse_error_def msg_unsupported_def)
qed


subsection \<open>Status filter\<close>

lemma cell_at_Some:
  "c \<in> set cols \<Longrightarrow> length r = length cols \<Longrightarrow> \<exists>v. cell_at cols r c = Some v"
  unfolding cell_at_def
  by (metis map_of_zip_is_Some not_Some_eq)

lemma columns_select_completed_yes [simp]:
  "columns (select_completed_yes m) = columns m"
  by (simp add: select_completed_yes_def)

lemma rows_select_completed_yes:
  "rows (select_completed_yes m) = filter (keeps_row (columns m)) (rows m)"
  by (simp add: select_completed_yes_def)

text \<open>
  Claim C2. When the filter runs (the joined table has a column \<^verbatim>\<open>Completed\<close>), a joined
  row is kept exactly when its \<^verbatim>\<open>Completed\<close> cell, converted to a string, stripped of
  surrounding whitespace and lower-cased, is \<^verbatim>\<open>yes\<close>. \<^verbatim>\<open>Yes\<close>, \<^verbatim>\<open> yes \<close> and \<^verbatim>\<open>YES\<close> pass;
  \<^verbatim>\<open>No\<close>, the empty string and \<^verbatim>\<open>yess\<close> do not.
\<close>

theorem status_filter_keeps_yes:
  "(filter_completed merged = Inr matched \<and> r \<in> set (rows merged) \<and>
    length r = length (columns merged) \<longrightarrow>
      (\<exists>v. cell_at (columns merged) r status_column = Some v \<and>
           (r \<in> set (rows matched) \<longleftrightarrow> py_lower (py_strip (py_str v)) = ''yes'')))
   \<and> completed_yes (CStr ''Yes'') \<and> completed_yes (CStr '' yes '') \<and> completed_yes (CStr ''YES'')
   \<and> \<not> completed_yes (CStr ''No'') \<and> \<not> completed_yes (CStr '''') \<and> \<not> completed_yes (CStr ''yess'')"
proof -
  have ex: "completed_yes (CStr ''Yes'')" "completed_yes (CStr '' yes '')"
    "completed_yes (CStr ''YES'')" "\<not> completed_yes (CStr ''No'')"
    "\<not> completed_yes (CStr '''')" "\<not> completed_yes (CStr ''yess'')"
    by code_simp+
  have "\<exists>v. cell_at (columns merged) r status_column = Some v \<and>
           (r \<in> set (rows matched) \<longleftrightarrow> py_lower (py_strip (py_str v)) = ''yes'')"
    if f: "filter_completed merged = Inr matched" and r: "r \<in> set (rows merged)"
      and len: "length r = length (columns merged)"
  proof -
    from f have in_cols: "status_column \<in> set (columns merged)"
      and m: "matched = select_completed_yes merged"
      by (auto simp: filter_completed_def split: if_splits)
    from cell_at_Some [OF in_cols len] obtain v
      where v: "cell_at (columns merged) r status_column = Some v" by blast
    with r m have "r \<in> set (rows matched) \<longleftrightarrow> py_lower (py_strip (py_str v)) = ''yes''"
      by (simp add: rows_select_completed_yes keeps_row_def completed_yes_def)
    with v show ?thesis by blast
  qed
  with ex show ?thesis by blast
qed

theorem status_filter_keeps_yes_witness:
  "filter_completed
     \<lparr>columns = [''Appointment ID'', ''Completed'', ''Name''],
      rows = [[CStr ''1'', CStr '' YES '', CStr ''X''], [CStr ''2'', CStr ''No'', CStr ''Y''],
              [CStr ''3'', CNaN, CStr ''Z'']]\<rparr> =
   Inr \<lparr>columns = [''Appointment ID'', ''Completed'', ''Name''],
        rows = [[CStr ''1'', CStr '' YES '', CStr ''X'']]\<rparr>
   \<and> [CStr ''1'', CStr '' YES '', CStr ''X'']
       \<in> set (rows \<lparr>columns = [''Appointment ID'', ''Completed'', ''Name''],
                     rows = [[CStr ''1'', CStr '' YES '', CStr ''X'']]\<rparr>)
   \<and> [CStr ''3'', CNaN, CStr ''Z'']
       \<notin> set (rows \<lparr>columns = [''Appointment ID'', ''Completed'', ''Name''],
                     rows = [[CStr ''1'', CStr '' YES '', CStr ''X'']]\<rparr>)"
proof -
  let ?m = "\<lparr>columns = [''Appointment ID'', ''Completed'', ''Name''],
      rows = [[CStr ''1'', CStr '' YES '', CStr ''X''], [CStr ''2'', CStr ''No'', CStr ''Y''],
              [CStr ''3'', CNaN, CStr ''Z'']]\<rparr>"
  let ?r = "\<lparr>columns = [''Appointment ID'', ''Completed'', ''Name''],
        rows = [[CStr ''1'', CStr '' YES '', CStr ''X'']]\<rparr>"
  let ?r1 = "[CStr ''1'', CStr '' YES '', CStr ''X'']"
  let ?r3 = "[CStr ''3'', CNaN, CStr ''Z'']"
  have f: "filter_completed ?m = Inr ?r" by code_simp
  have c1: "cell_at (columns ?m) ?r1 status_column = Some (CStr '' YES '')"
    and c3: "cell_at (columns ?m) ?r3 status_column = Some CNaN"
    by code_simp+
  have y1: "py_lower (py_strip (py_str (CStr '' YES ''))) = ''yes''"
    and y3: "py_lower (py_strip (py_str CNaN)) \<noteq> ''yes''"
    by code_simp+
  from status_filter_keeps_yes [of ?m ?r ?r1] f c1 y1
  have "?r1 \<in> set (rows ?r)" by simp
  moreover from status_filter_keeps_yes [of ?m ?r ?r3] f c3 y3
  have "?r3 \<notin> set (rows ?r)" by simp
  ultimately show ?thesis using f by blast
qed

text \<open>
  Claim C8. Filtering is idempotent: the filter applied to its own result returns that
  result unchanged.
\<close>

theorem filter_completed_idempotent:
  "filter_completed merged = Inr matched \<Longrightarrow> filter_completed matched = Inr matched"
  by (auto simp: filter_completed_def select_completed_yes_def split: if_splits)

theorem filter_completed_idempotent_witness:
  "filter_completed \<lparr>columns = [''Appointment ID'', ''Completed''],
                      rows = [[CStr ''1'', CStr '' YES '']]\<rparr> =
   Inr \<lparr>columns = [''Appointment ID'', ''Completed''], rows = [[CStr ''1'', CStr '' YES '']]\<rparr>"
proof -
  have "filter_completed \<lparr>columns = [''Appointment ID'', ''Completed''],
                      rows = [[CStr ''1'', CStr '' YES ''], [CStr ''2'', CStr ''No'']]\<rparr> =
   Inr \<lparr>columns = [''Appointment ID'', ''Completed''], rows = [[CStr ''1'', CStr '' YES '']]\<rparr>"
    by code_simp
  then show ?thesis by (rule filter_completed_idempotent)
qed

subsection \<open>Join\<close>

lemma columns_astype [simp]: "columns (astype_str_column v c df) = columns df"
  by (simp add: astype_str_column_def)

lemma rows_astype:
  "rows (astype_str_column v c df) = map (astype_str_row v c (columns df)) (rows df)"
  by (simp add: astype_str_column_def)

lemma length_filter_eq_count_list:
  "length (filter (\<lambda>x. g x = k) xs) = count_list (map g xs) k"
  by (induction xs) auto

lemma length_matching_rows:
  "length (matching_rows key df k) =
   count_list (map (\<lambda>r. cell_at (columns df) r key) (rows df)) k"
  by (simp add: matching_rows_def length_filter_eq_count_list)

lemma length_merged_rows:
  "length (merged_rows l r key) =
   sum_list (map (count_list (map (\<lambda>b. cell_at (columns r) b key) (rows r)))
                 (map (\<lambda>a. cell_at (columns l) a key) (rows l)))"
  by (simp add: merged_rows_def length_concat comp_def length_matching_rows)

lemma merge_inner_Inr:
  "merge_inner v l r key sfx = Inr J \<Longrightarrow>
   columns J = merged_columns key sfx (columns l) (columns r) \<and> rows J = merged_rows l r key"
  by (auto simp: merge_inner_def Let_def split: if_splits)

lemma join_tables_Inr:
  "join_tables v A B = Inr J \<Longrightarrow>
   columns J = joined_columns A B \<and>
   rows J = merged_rows (astype_str_column v key_column A) (astype_str_column v key_column B)
              key_column"
  unfolding join_tables_def joined_columns_def
  by (drule merge_inner_Inr) simp

lemma suffix_repeats_Nil:
  "distinct news \<Longrightarrow> set news \<inter> set seen_new = {} \<Longrightarrow>
   suffix_repeats seen_old seen_new olds news = []"
  by (induction seen_old seen_new olds news rule: suffix_repeats.induct) auto

lemma duplicate_labels_Nil:
  assumes "distinct (merged_columns key sfx lcols rcols)"
  shows "duplicate_labels v key sfx lcols rcols = []"
proof -
  let ?L = "left_labels key sfx lcols rcols" and ?R = "right_labels key sfx lcols rcols"
  from assms have dL: "distinct ?L" and dR: "distinct ?R" and disj: "set ?L \<inter> set ?R = {}"
    by (simp_all add: merged_columns_def)
  have keepR: "c \<in> set ?R"
    if "c \<in> set rcols" "c \<noteq> key" "\<not> overlapping key lcols rcols c" for c
    using that unfolding right_labels_def set_map
    by (intro image_eqI [where x = c]) auto
  have keepL: "c \<in> set ?L" if "c \<in> set lcols" "\<not> overlapping key lcols rcols c" for c
    using that unfolding left_labels_def set_map
    by (intro image_eqI [where x = c]) auto
  have "suffix_meets_other_side key sfx lcols rcols = []"
    unfolding suffix_meets_other_side_def using disj keepR keepL
    by (auto simp: filter_empty_conv)
  with dL dR show ?thesis
    by (simp add: duplicate_labels_def suffix_repeats_Nil)
qed

lemma join_tables_succeeds:
  "distinct (joined_columns A B) \<Longrightarrow> \<exists>J. join_tables v A B = Inr J"
  by (simp add: join_tables_def joined_columns_def merge_inner_def duplicate_labels_Nil)

lemma length_rows_join_tables:
  "join_tables v A B = Inr J \<Longrightarrow>
   length (rows J) = sum_list (map (count_list (join_keys v B)) (join_keys v A))"
  by (drule join_tables_Inr) (simp add: join_keys_def length_merged_rows)

text \<open>
  Claim C1, as amended. Whenever the merge returns a joined table, that table has as many
  rows as the sum, over the key values that occur in both tables, of the number of rows of
  the first table with that key times the number of rows of the second with that key
  (keys as the join compares them, after \<^verbatim>\<open>astype(str)\<close>); when no key value occurs in
  both tables it has no rows. The merge returns a joined table, and raises nothing,
  whenever the labels of the joined table are pairwise distinct.
\<close>

theorem join_row_count:
  "(join_tables v A B = Inr J \<longrightarrow>
      length (rows J) =
        (\<Sum>k \<in> set (join_keys v A) \<inter> set (join_keys v B).
           count_list (join_keys v A) k * count_list (join_keys v B) k)
      \<and> (set (join_keys v A) \<inter> set (join_keys v B) = {} \<longrightarrow> rows J = []))
   \<and> (distinct (joined_columns A B) \<longrightarrow> (\<exists>J. join_tables v A B = Inr J))"
proof -
  let ?f = "\<lambda>k. count_list (join_keys v A) k * count_list (join_keys v B) k"
  have "length (rows J) = (\<Sum>k \<in> set (join_keys v A) \<inter> set (join_keys v B). ?f k)
        \<and> (set (join_keys v A) \<inter> set (join_keys v B) = {} \<longrightarrow> rows J = [])"
    if J: "join_tables v A B = Inr J"
  proof -
    have "length (rows J) = (\<Sum>k \<in> set (join_keys v A). ?f k)"
      by (simp add: length_rows_join_tables [OF J] sum_list_map_eq_sum_count)
    also have "\<dots> = (\<Sum>k \<in> set (join_keys v A) \<inter> set (join_keys v B). ?f k)"
      by (rule sum.mono_neutral_right) (auto simp: count_list_0_iff)
    finally have count: "length (rows J) =
        (\<Sum>k \<in> set (join_keys v A) \<inter> set (join_keys v B). ?f k)" .
    then have "set (join_keys v A) \<inter> set (join_keys v B) = {} \<longrightarrow> rows J = []"
      by auto
    with count show ?thesis by blast
  qed
  moreover have "distinct (joined_columns A B) \<longrightarrow> (\<exists>J. join_tables v A B = Inr J)"
    using join_tables_succeeds by blast
  ultimately show ?thesis by blast
qed

theorem join_row_count_witness:
  "distinct (joined_columns scenario_aloha scenario_disjoint)
   \<and> set (join_keys Pandas2 scenario_aloha) \<inter> set (join_keys Pandas2 scenario_disjoint) = {}
   \<and> join_tables Pandas2 scenario_aloha scenario_disjoint =
       Inr \<lparr>columns = [''Appointment ID'', ''Completed'', ''Name'', ''Amount''], rows = []\<rparr>
   \<and> (\<exists>J. join_tables Pandas3 scenario_aloha scenario_unbilled = Inr J \<and> length (rows J) = 1)"
proof -
  let ?J = "\<lparr>columns = [''Appointment ID'', ''Completed'', ''Name'', ''Amount''],
             rows = [] :: cell list list\<rparr>"
  have dd: "distinct (joined_columns scenario_aloha scenario_disjoint)"
    and du: "distinct (joined_columns scenario_aloha scenario_unbilled)"
    and d: "set (join_keys Pandas2 scenario_aloha) \<inter> set (join_keys Pandas2 scenario_disjoint) = {}"
    and s: "(\<Sum>k \<in> set (join_keys Pandas3 scenario_aloha) \<inter> set (join_keys Pandas3 scenario_unbilled).
        count_list (join_keys Pandas3 scenario_aloha) k *
        count_list (join_keys Pandas3 scenario_unbilled) k) = 1"
    and c: "joined_columns scenario_aloha scenario_disjoint =
        [''Appointment ID'', ''Completed'', ''Name'', ''Amount'']"
    by code_simp+
  from join_row_count [of Pandas2 scenario_aloha scenario_disjoint] dd
  obtain J where J: "join_tables Pandas2 scenario_aloha scenario_disjoint = Inr J" by blast
  with join_row_count [of Pandas2 scenario_aloha scenario_disjoint J] d
  have "rows J = []" by blast
  moreover from join_tables_Inr [OF J] c have "columns J = columns ?J" by simp
  ultimately have "J = ?J" by simp
  with J have 1: "join_tables Pandas2 scenario_aloha scenario_disjoint = Inr ?J" by simp
  from join_row_count [of Pandas3 scenario_aloha scenario_unbilled] du
  obtain K where K: "join_tables Pandas3 scenario_aloha scenario_unbilled = Inr K" by blast
  with join_row_count [of Pandas3 scenario_aloha scenario_unbilled K] s
  have "length (rows K) = 1" by simp
  with K dd d 1 show ?thesis by blast
qed

text \<open>
  The claim as stated, for every pair of valid tables, fails: \<open>repeat_aloha\<close> and
  \<open>other_unbilled\<close> pass the validation and share no key, but the suffix makes the first
  table's \<^verbatim>\<open>Note\<close> into \<^verbatim>\<open>Note_aloha\<close>, a label the first table already has, and the
  merge raises \<^verbatim>\<open>MergeError\<close> instead of returning an empty table.
\<close>

theorem join_row_count_counterexample:
  "validate_columns repeat_aloha [key_column, status_column] ''File 1 (Aloha)'' = None
   \<and> validate_columns other_unbilled [key_column] ''File 2 (Unbilled)'' = None
   \<and> wf_frame repeat_aloha \<and> wf_frame other_unbilled
   \<and> set (join_keys Pandas2 repeat_aloha) \<inter> set (join_keys Pandas2 other_unbilled) = {}
   \<and> set (join_keys Pandas3 repeat_aloha) \<inter> set (join_keys Pandas3 other_unbilled) = {}
   \<and> join_tables Pandas2 repeat_aloha other_unbilled = Inl (MergeError [''Note_aloha''])
   \<and> join_tables Pandas3 repeat_aloha other_unbilled = Inl (MergeError [''Note_aloha''])"
  by code_simp

lemma cell_at_astype_str_row:
  "cell_at cols (astype_str_row v c cols r) k =
     (if k = c then map_option (astype_str v) (cell_at cols r k) else cell_at cols r k)"
proof (induction cols arbitrary: r)
  case Nil
  then show ?case by (simp add: cell_at_def astype_str_row_def)
next
  case (Cons x cols)
  then show ?case
    by (cases r) (auto simp: cell_at_def astype_str_row_def)
qed

lemma in_merged_rows:
  "x \<in> set (merged_rows l r key) \<longleftrightarrow>
     (\<exists>a \<in> set (rows l). \<exists>b \<in> set (rows r).
        cell_at (columns r) b key = cell_at (columns l) a key \<and>
        x = a @ without_key key (columns r) b)"
  by (auto simp: merged_rows_def matching_rows_def)

lemma in_rows_join_tables:
  assumes "join_tables v A B = Inr J"
  shows "x \<in> set (rows J) \<longleftrightarrow>
     (\<exists>a \<in> set (rows A). \<exists>b \<in> set (rows B).
        map_option (astype_str v) (cell_at (columns A) a key_column) =
        map_option (astype_str v) (cell_at (columns B) b key_column) \<and>
        x = astype_str_row v key_column (columns A) a @
            without_key key_column (columns B) (astype_str_row v key_column (columns B) b))"
  using join_tables_Inr [OF assms]
  by (simp add: in_merged_rows rows_astype cell_at_astype_str_row eq_commute)




subsection \<open>Joined columns\<close>

lemma cell_at_append:
  "length a = length cols \<Longrightarrow>
   cell_at (cols @ cols') (a @ b) k =
     (case cell_at cols a k of Some v \<Rightarrow> Some v | None \<Rightarrow> cell_at cols' b k)"
  by (auto simp: cell_at_def map_add_def split: option.splits dest: map_of_SomeD set_zip_leftD)

lemma cell_at_None: "k \<notin> set cols \<Longrightarrow> cell_at cols r k = None"
  unfolding cell_at_def map_of_eq_None_iff
  by (auto dest: set_zip_leftD)

lemma cell_at_map_distinct:
  "distinct (map f cols) \<Longrightarrow> c \<in> set cols \<Longrightarrow>
   cell_at (map f cols) r (f c) = cell_at cols r c"
proof (induction cols arbitrary: r)
  case Nil
  then show ?case by simp
next
  case (Cons x cols)
  show ?case
  proof (cases r)
    case Nil
    then show ?thesis by (simp add: cell_at_def)
  next
    case (Cons v r')
    with Cons.prems Cons.IH [of r'] show ?thesis
      by (auto simp: cell_at_def image_iff)
  qed
qed

lemma cell_at_without_key:
  "k \<noteq> key \<Longrightarrow>
   cell_at (filter (\<lambda>c. c \<noteq> key) cols) (without_key key cols r) k = cell_at cols r k"
proof (induction cols arbitrary: r)
  case Nil
  then show ?case by (simp add: cell_at_def without_key_def)
next
  case (Cons x cols)
  then show ?case
    by (cases r) (auto simp: cell_at_def without_key_def)
qed

lemma length_astype_str_row:
  "length r = length cols \<Longrightarrow> length (astype_str_row v c cols r) = length cols"
  by (simp add: astype_str_row_def)

text \<open>
  Claim C7, as amended. Let both input tables be well formed and let the labels of the
  joined table be pairwise distinct. Then the merge returns the joined table, and each
  non-key column of the first table is in it under its own name, or under that name
  followed by \<^verbatim>\<open>_aloha\<close> when the second table has a column of the same name; each non-key
  column of the second table is in it under its own name, or under that name followed by
  \<^verbatim>\<open>_unbilled\<close> when the first table has a column of the same name. Every joined row comes
  from a row of the first table and a row of the second whose cells are found in the
  joined row under these names.
\<close>

theorem joined_columns_addressable:
  assumes wfA: "wf_frame A" and wfB: "wf_frame B"
    and dist: "distinct (joined_columns A B)"
  shows "\<exists>J. join_tables v A B = Inr J \<and> columns J = joined_columns A B \<and>
     (\<forall>c \<in> set (columns A). c \<noteq> key_column \<longrightarrow>
        (if c \<in> set (columns B) then c @ ''_aloha'' else c) \<in> set (columns J)) \<and>
     (\<forall>c \<in> set (columns B). c \<noteq> key_column \<longrightarrow>
        (if c \<in> set (columns A) then c @ ''_unbilled'' else c) \<in> set (columns J)) \<and>
     (\<forall>x \<in> set (rows J). \<exists>a \<in> set (rows A). \<exists>b \<in> set (rows B).
        (\<forall>c \<in> set (columns A). c \<noteq> key_column \<longrightarrow>
           cell_at (columns A) a c \<noteq> None \<and>
           cell_at (columns J) x (if c \<in> set (columns B) then c @ ''_aloha'' else c) =
             cell_at (columns A) a c) \<and>
        (\<forall>c \<in> set (columns B). c \<noteq> key_column \<longrightarrow>
           cell_at (columns B) b c \<noteq> None \<and>
           cell_at (columns J) x (if c \<in> set (columns A) then c @ ''_unbilled'' else c) =
             cell_at (columns B) b c))"
proof -
  let ?k = key_column
  let ?ov = "overlapping ?k (columns A) (columns B)"
  let ?fl = "\<lambda>c. if ?ov c then c @ ''_aloha'' else c"
  let ?fr = "\<lambda>c. if ?ov c then c @ ''_unbilled'' else c"
  let ?L = "map ?fl (columns A)"
  let ?R = "map ?fr (filter (\<lambda>c. c \<noteq> ?k) (columns B))"
  from join_tables_succeeds [OF dist] obtain J where J: "join_tables v A B = Inr J" by blast
  have jc: "joined_columns A B = ?L @ ?R"
    by (simp add: joined_columns_def merged_columns_def left_labels_def right_labels_def)
  from join_tables_Inr [OF J] have cols: "columns J = ?L @ ?R" by (simp add: jc)
  from dist have dL: "distinct ?L" and dR: "distinct ?R" and disj: "set ?L \<inter> set ?R = {}"
    unfolding jc by simp_all
  have fl: "?fl c = (if c \<in> set (columns B) then c @ ''_aloha'' else c)"
    if "c \<in> set (columns A)" "c \<noteq> ?k" for c
    using that by (simp add: overlapping_def)
  have fr: "?fr c = (if c \<in> set (columns A) then c @ ''_unbilled'' else c)"
    if "c \<in> set (columns B)" "c \<noteq> ?k" for c
    using that by (simp add: overlapping_def)
  have inL: "?fl c \<in> set ?L" if "c \<in> set (columns A)" for c
    unfolding set_map using that by (rule imageI)
  have inR: "?fr c \<in> set ?R" if "c \<in> set (columns B)" "c \<noteq> ?k" for c
  proof -
    from that have "c \<in> set (filter (\<lambda>c. c \<noteq> ?k) (columns B))" by simp
    then show ?thesis unfolding set_map by (rule imageI)
  qed
  have labelsA: "\<forall>c \<in> set (columns A). c \<noteq> ?k \<longrightarrow>
      (if c \<in> set (columns B) then c @ ''_aloha'' else c) \<in> set (columns J)"
  proof (intro ballI impI)
    fix c assume c: "c \<in> set (columns A)" "c \<noteq> ?k"
    from inL [OF c(1)] have "?fl c \<in> set (columns J)" unfolding cols by simp
    with fl [OF c] show "(if c \<in> set (columns B) then c @ ''_aloha'' else c) \<in> set (columns J)"
      by simp
  qed
  have labelsB: "\<forall>c \<in> set (columns B). c \<noteq> ?k \<longrightarrow>
      (if c \<in> set (columns A) then c @ ''_unbilled'' else c) \<in> set (columns J)"
  proof (intro ballI impI)
    fix c assume c: "c \<in> set (columns B)" "c \<noteq> ?k"
    from inR [OF c] have "?fr c \<in> set (columns J)" unfolding cols by simp
    with fr [OF c] show "(if c \<in> set (columns A) then c @ ''_unbilled'' else c) \<in> set (columns J)"
      by simp
  qed
  have cells: "\<exists>a \<in> set (rows A). \<exists>b \<in> set (rows B).
        (\<forall>c \<in> set (columns A). c \<noteq> ?k \<longrightarrow>
           cell_at (columns A) a c \<noteq> None \<and>
           cell_at (columns J) x (if c \<in> set (columns B) then c @ ''_aloha'' else c) =
             cell_at (columns A) a c) \<and>
        (\<forall>c \<in> set (columns B). c \<noteq> ?k \<longrightarrow>
           cell_at (columns B) b c \<noteq> None \<and>
           cell_at (columns J) x (if c \<in> set (columns A) then c @ ''_unbilled'' else c) =
             cell_at (columns B) b c)"
    if x: "x \<in> set (rows J)" for x
  proof -
    from x obtain a b where a: "a \<in> set (rows A)" and b: "b \<in> set (rows B)"
      and xeq: "x = astype_str_row v ?k (columns A) a @
                    without_key ?k (columns B) (astype_str_row v ?k (columns B) b)"
      unfolding in_rows_join_tables [OF J] by blast
    from wfA a have la: "length a = length (columns A)"
      by (auto simp: wf_frame_def list_all_iff)
    from wfB b have lb: "length b = length (columns B)"
      by (auto simp: wf_frame_def list_all_iff)
    let ?a' = "astype_str_row v ?k (columns A) a"
    let ?b' = "astype_str_row v ?k (columns B) b"
    have la': "length ?a' = length ?L" using la by (simp add: length_astype_str_row)
    have left: "cell_at (columns A) a c \<noteq> None \<and>
        cell_at (columns J) x (?fl c) = cell_at (columns A) a c"
      if c: "c \<in> set (columns A)" and ck: "c \<noteq> ?k" for c
    proof -
      from cell_at_Some [OF c la] obtain w where w: "cell_at (columns A) a c = Some w" by blast
      have "cell_at ?L ?a' (?fl c) = cell_at (columns A) ?a' c"
        using dL c by (rule cell_at_map_distinct)
      also have "\<dots> = Some w" using ck w by (simp add: cell_at_astype_str_row)
      finally have "cell_at (?L @ ?R) (?a' @ without_key ?k (columns B) ?b') (?fl c) = Some w"
        using la' by (simp add: cell_at_append)
      then show ?thesis unfolding cols xeq using w by simp
    qed
    have right: "cell_at (columns B) b c \<noteq> None \<and>
        cell_at (columns J) x (?fr c) = cell_at (columns B) b c"
      if c: "c \<in> set (columns B)" and ck: "c \<noteq> ?k" for c
    proof -
      from cell_at_Some [OF c lb] obtain w where w: "cell_at (columns B) b c = Some w" by blast
      from c ck have cf: "c \<in> set (filter (\<lambda>c. c \<noteq> ?k) (columns B))" by simp
      from inR [OF c ck] disj have "?fr c \<notin> set ?L" by blast
      then have n: "cell_at ?L ?a' (?fr c) = None" by (rule cell_at_None)
      have "cell_at ?R (without_key ?k (columns B) ?b') (?fr c) =
            cell_at (filter (\<lambda>c. c \<noteq> ?k) (columns B)) (without_key ?k (columns B) ?b') c"
        using dR cf by (rule cell_at_map_distinct)
      also have "\<dots> = cell_at (columns B) ?b' c" using ck by (rule cell_at_without_key)
      also have "\<dots> = Some w" using ck w by (simp add: cell_at_astype_str_row)
      finally have "cell_at (?L @ ?R) (?a' @ without_key ?k (columns B) ?b') (?fr c) = Some w"
        using la' n by (simp add: cell_at_append)
      then show ?thesis unfolding cols xeq using w by simp
    qed
    show ?thesis
    proof (intro bexI [OF _ a] bexI [OF _ b] conjI ballI impI)
      fix c assume "c \<in> set (columns A)" "c \<noteq> ?k"
      from left [OF this] fl [OF this]
      show "cell_at (columns A) a c \<noteq> None"
        "cell_at (columns J) x (if c \<in> set (columns B) then c @ ''_aloha'' else c) =
            cell_at (columns A) a c"
        by simp_all
    next
      fix c assume "c \<in> set (columns B)" "c \<noteq> ?k"
      from right [OF this] fr [OF this]
      show "cell_at (columns B) b c \<noteq> None"
        "cell_at (columns J) x (if c \<in> set (columns A) then c @ ''_unbilled'' else c) =
            cell_at (columns B) b c"
        by simp_all
    qed
  qed
  from J join_tables_Inr [OF J] labelsA labelsB cells show ?thesis by blast
qed

theorem joined_columns_addressable_witness:
  "wf_frame overlap_aloha \<and> wf_frame clash_unbilled
   \<and> distinct (joined_columns overlap_aloha clash_unbilled)
   \<and> join_tables Pandas3 overlap_aloha clash_unbilled =
       Inr \<lparr>columns = [''Appointment ID'', ''Completed'', ''Note_aloha'', ''Note_unbilled''],
            rows = [[CStr ''1'', CStr ''Yes'', CStr ''from A'', CStr ''from B'']]\<rparr>
   \<and> cell_at [''Appointment ID'', ''Completed'', ''Note_aloha'', ''Note_unbilled'']
        [CStr ''1'', CStr ''Yes'', CStr ''from A'', CStr ''from B''] ''Note_aloha'' =
      Some (CStr ''from A'')
   \<and> cell_at [''Appointment ID'', ''Completed'', ''Note_aloha'', ''Note_unbilled'']
        [CStr ''1'', CStr ''Yes'', CStr ''from A'', CStr ''from B''] ''Note_unbilled'' =
      Some (CStr ''from B'')"
proof -
  let ?A = overlap_aloha and ?B = clash_unbilled
  let ?x = "[CStr ''1'', CStr ''Yes'', CStr ''from A'', CStr ''from B'']"
  let ?J = "\<lparr>columns = [''Appointment ID'', ''Completed'', ''Note_aloha'', ''Note_unbilled''],
            rows = [?x]\<rparr>"
  have wfA: "wf_frame ?A" and wfB: "wf_frame ?B"
    and dist: "distinct (joined_columns ?A ?B)"
    and JJ: "join_tables Pandas3 ?A ?B = Inr ?J"
    by code_simp+
  have rA: "set (rows ?A) = {[CInt 1, CStr ''Yes'', CStr ''from A'']}"
    and rB: "set (rows ?B) = {[CInt 1, CStr ''from B'']}"
    by (simp_all add: overlap_aloha_def clash_unbilled_def)
  have n: "''Note'' \<in> set (columns ?A)" "''Note'' \<in> set (columns ?B)" "''Note'' \<noteq> key_column"
    by code_simp+
  have vA: "cell_at (columns ?A) [CInt 1, CStr ''Yes'', CStr ''from A''] ''Note'' = Some (CStr ''from A'')"
    and vB: "cell_at (columns ?B) [CInt 1, CStr ''from B''] ''Note'' = Some (CStr ''from B'')"
    by code_simp+
  from joined_columns_addressable [OF wfA wfB dist, of Pandas3] obtain J'
    where J': "join_tables Pandas3 ?A ?B = Inr J'"
      and cells: "\<forall>x \<in> set (rows J'). \<exists>a \<in> set (rows ?A). \<exists>b \<in> set (rows ?B).
        (\<forall>c \<in> set (columns ?A). c \<noteq> key_column \<longrightarrow>
           cell_at (columns ?A) a c \<noteq> None \<and>
           cell_at (columns J') x (if c \<in> set (columns ?B) then c @ ''_aloha'' else c) =
             cell_at (columns ?A) a c) \<and>
        (\<forall>c \<in> set (columns ?B). c \<noteq> key_column \<longrightarrow>
           cell_at (columns ?B) b c \<noteq> None \<and>
           cell_at (columns J') x (if c \<in> set (columns ?A) then c @ ''_unbilled'' else c) =
             cell_at (columns ?B) b c)"
    by blast
  from J' JJ have eq: "J' = ?J" by simp
  have xin: "?x \<in> set (rows ?J)" by simp
  from cells [unfolded eq, rule_format, OF xin]
  have "\<exists>a \<in> set (rows ?A). \<exists>b \<in> set (rows ?B).
        (\<forall>c \<in> set (columns ?A). c \<noteq> key_column \<longrightarrow>
           cell_at (columns ?A) a c \<noteq> None \<and>
           cell_at (columns ?J) ?x (if c \<in> set (columns ?B) then c @ ''_aloha'' else c) =
             cell_at (columns ?A) a c) \<and>
        (\<forall>c \<in> set (columns ?B). c \<noteq> key_column \<longrightarrow>
           cell_at (columns ?B) b c \<noteq> None \<and>
           cell_at (columns ?J) ?x (if c \<in> set (columns ?A) then c @ ''_unbilled'' else c) =
             cell_at (columns ?B) b c)" .
  then obtain a b
    where a: "a \<in> set (rows ?A)" and b: "b \<in> set (rows ?B)"
      and L: "\<forall>c \<in> set (columns ?A). c \<noteq> key_column \<longrightarrow>
           cell_at (columns ?A) a c \<noteq> None \<and>
           cell_at (columns ?J) ?x (if c \<in> set (columns ?B) then c @ ''_aloha'' else c) =
             cell_at (columns ?A) a c"
      and R: "\<forall>c \<in> set (columns ?B). c \<noteq> key_column \<longrightarrow>
           cell_at (columns ?B) b c \<noteq> None \<and>
           cell_at (columns ?J) ?x (if c \<in> set (columns ?A) then c @ ''_unbilled'' else c) =
             cell_at (columns ?B) b c"
    by blast
  from a rA have a': "a = [CInt 1, CStr ''Yes'', CStr ''from A'']" by simp
  from b rB have b': "b = [CInt 1, CStr ''from B'']" by simp
  from L [rule_format, OF n(1) n(3)] n(2) vA a'
  have "cell_at (columns ?J) ?x ''Note_aloha'' = Some (CStr ''from A'')" by simp
  moreover from R [rule_format, OF n(2) n(3)] n(1) vB b'
  have "cell_at (columns ?J) ?x ''Note_unbilled'' = Some (CStr ''from B'')" by simp
  ultimately show ?thesis using wfA wfB dist JJ by simp
qed

text \<open>
  The claim as stated, for every pair of input tables, fails when a suffixed name meets a
  name that is already there. In the join of \<open>clash_aloha\<close> and \<open>clash_unbilled\<close> the
  second table's \<^verbatim>\<open>Note\<close> is renamed \<^verbatim>\<open>Note_unbilled\<close>, the label of a column the first
  table brought along. Up to pandas 2.3 the joined table has two columns of that label,
  and looking the label up does not give the second table's value; pandas 3 raises
  \<^verbatim>\<open>MergeError\<close> and there is no joined table.
\<close>

theorem joined_columns_addressable_counterexample:
  "join_tables Pandas2 clash_aloha clash_unbilled =
     Inr \<lparr>columns = [''Appointment ID'', ''Completed'', ''Note_aloha'', ''Note_unbilled'',
                     ''Note_unbilled''],
          rows = [[CStr ''1'', CStr ''Yes'', CStr ''from A'', CStr ''own column of A'',
                   CStr ''from B'']]\<rparr>
   \<and> cell_at (columns clash_unbilled) [CInt 1, CStr ''from B''] ''Note'' = Some (CStr ''from B'')
   \<and> cell_at [''Appointment ID'', ''Completed'', ''Note_aloha'', ''Note_unbilled'',
              ''Note_unbilled'']
        [CStr ''1'', CStr ''Yes'', CStr ''from A'', CStr ''own column of A'', CStr ''from B'']
        ''Note_unbilled'' \<noteq> Some (CStr ''from B'')
   \<and> join_tables Pandas3 clash_aloha clash_unbilled = Inl (MergeError [''Note_unbilled''])
   \<and> \<not> distinct (joined_columns clash_aloha clash_unbilled)
   \<and> wf_frame clash_aloha \<and> wf_frame clash_unbilled"
  by code_simp

subsection \<open>Export\<close>










end
